theory Spec2Isabelle
  imports
    Complex_Main
    "HOL-Library.Char_ord"
    "HOL-Library.List_Lexorder"
    "HOL-Library.Option_ord"
    "HOL-Library.Product_Lexorder"
begin

section \<open>Floating-point values and the numeric runtime\<close>

text \<open>
  The diagnostics in \<^verbatim>\<open>pyprob/diagnostics.py\<close> compute with \<^verbatim>\<open>float64\<close> values.
  A value is a finite number, one of the two infinities, or NaN. The code itself relies
  on NaN, as the marker of a sample that is missing, and tests for it with
  \<^verbatim>\<open>np.isnan\<close>.
\<close>

datatype npfloat = Fin real | PInf | NInf | NaN

fun isnan :: "npfloat \<Rightarrow> bool" where
  "isnan NaN = True"
| "isnan _ = False"

text \<open>
  The arithmetic on these values is not code of the module: it is the binary64 arithmetic
  of Python and NumPy, which rounds the result of every operation, overflows to an
  infinity, and sums the elements of an array in an order that NumPy chooses. It is a
  parameter of the model: a record of the operations that the module calls. Nothing is
  assumed of them, so a property proved below holds whatever the runtime computes.

  \<^item> \<open>py_float\<close>: \<^verbatim>\<open>float(k)\<close> of a Python integer;
  \<^item> \<open>fl_add\<close>, \<open>fl_sub\<close>, \<open>fl_mul\<close>, \<open>fl_div\<close>: \<^verbatim>\<open>+\<close>, \<^verbatim>\<open>-\<close>, \<^verbatim>\<open>*\<close> and \<^verbatim>\<open>/\<close>
    of two values (Python's check for a zero divisor is in the model, not here);
  \<^item> \<open>np_power2\<close>: \<^verbatim>\<open>v ** 2\<close>; \<open>np_sqrt\<close>: \<^verbatim>\<open>np.sqrt(v)\<close>;
  \<^item> \<open>np_sum\<close>, \<open>np_mean\<close>, \<open>np_var\<close>: \<^verbatim>\<open>np.sum\<close>, \<^verbatim>\<open>np.mean\<close> and \<^verbatim>\<open>np.var\<close> of a
    one-dimensional array, a list here; with \<^verbatim>\<open>axis=1\<close> NumPy applies them to every row
    of a matrix;
  \<^item> \<open>np_corrcoef\<close>: the entry \<^verbatim>\<open>[0][1]\<close> of \<^verbatim>\<open>np.corrcoef(x, y)\<close>, NumPy's
    correlation coefficient of two one-dimensional arrays.
\<close>

record runtime =
  py_float :: "int \<Rightarrow> npfloat"
  fl_add :: "npfloat \<Rightarrow> npfloat \<Rightarrow> npfloat"
  fl_sub :: "npfloat \<Rightarrow> npfloat \<Rightarrow> npfloat"
  fl_mul :: "npfloat \<Rightarrow> npfloat \<Rightarrow> npfloat"
  fl_div :: "npfloat \<Rightarrow> npfloat \<Rightarrow> npfloat"
  np_power2 :: "npfloat \<Rightarrow> npfloat"
  np_sqrt :: "npfloat \<Rightarrow> npfloat"
  np_sum :: "npfloat list \<Rightarrow> npfloat"
  np_mean :: "npfloat list \<Rightarrow> npfloat"
  np_var :: "npfloat list \<Rightarrow> npfloat"
  np_corrcoef :: "npfloat list \<Rightarrow> npfloat list \<Rightarrow> npfloat"

section \<open>Errors\<close>

text \<open>The exceptions that the modelled code raises, as values.\<close>

datatype py_error =
  TypeError | ValueError | RuntimeError | IndexError | KeyError
  | AttributeError | ZeroDivisionError

section \<open>The Gelman-Rubin diagnostic\<close>

text \<open>
  A two-dimensional array is a list of rows (one row per chain). \<^verbatim>\<open>x.shape[0]\<close> is the
  number of rows and \<^verbatim>\<open>x.shape[1]\<close> the length of every row.
\<close>

type_synonym matrix = "npfloat list list"

definition shape0 :: "matrix \<Rightarrow> nat" where
  "shape0 x = length x"

definition shape1 :: "matrix \<Rightarrow> nat" where
  "shape1 x = (case x of [] \<Rightarrow> 0 | r # _ \<Rightarrow> length r)"

text \<open>
  \<^verbatim>\<open>gelman_rubin_diagnostic(x, mu=None, logger=None)\<close>, with the runtime \<open>np\<close>. The
  quotients of \<^verbatim>\<open>float(...)\<close> values are Python divisions, which raise
  \<^verbatim>\<open>ZeroDivisionError\<close> on a zero divisor: \<^verbatim>\<open>float(m-1)\<close> and \<^verbatim>\<open>float(m)\<close> are not zero
  once \<open>m \<ge> 2\<close>, and \<^verbatim>\<open>float(n)\<close> is zero exactly when \<open>n = 0\<close>. \<^verbatim>\<open>mu if mu else ...\<close>
  takes \<open>mu\<close> unless it is \<^verbatim>\<open>None\<close> or zero.
\<close>

definition gelman_rubin_diagnostic ::
  "runtime \<Rightarrow> matrix \<Rightarrow> npfloat option \<Rightarrow> py_error + npfloat" where
  "gelman_rubin_diagnostic np x mu =
     (let m = shape0 x; n = shape1 x
      in if m < 2 then Inl ValueError
         else
           let theta = map (np_mean np) x;
               sigma = map (np_var np) x;
               theta_m = (case mu of
                            Some v \<Rightarrow> if v \<noteq> Fin 0 then v else np_mean np theta
                          | None \<Rightarrow> np_mean np theta);
               b = fl_mul np (fl_div np (py_float np (int n)) (py_float np (int m - 1)))
                     (np_sum np (map (\<lambda>t. np_power2 np (fl_sub np t theta_m)) theta));
               w = fl_mul np (fl_div np (Fin 1) (py_float np (int m))) (np_sum np sigma)
           in if n = 0 then Inl ZeroDivisionError
              else
                let v_hat =
                      fl_add np
                        (fl_mul np (fl_div np (py_float np (int n - 1)) (py_float np (int n))) w)
                        (fl_mul np
                           (fl_div np (py_float np (int (m + 1))) (py_float np (int (m * n)))) b)
                in Inr (np_sqrt np (fl_div np v_hat w)))"

text \<open>
  \<^verbatim>\<open>rhat(values, iters)\<close>, with \<^verbatim>\<open>trace_dist_length\<close> of the enclosing function as a
  parameter. The loop fills \<^verbatim>\<open>ret\<close> entry by entry; an exception of the diagnostic
  leaves the loop. \<^verbatim>\<open>values[:, :k]\<close> for a positive \<open>k\<close> keeps the first \<open>k\<close> columns.
\<close>

fun rhat_loop :: "runtime \<Rightarrow> int \<Rightarrow> matrix \<Rightarrow> int list \<Rightarrow> py_error + npfloat list" where
  "rhat_loop np num_missing_samples values [] = Inr []"
| "rhat_loop np num_missing_samples values (t # ts) =
     (case (if t \<le> num_missing_samples then Inr NaN
            else gelman_rubin_diagnostic np
                   (map (take (nat (t - num_missing_samples))) values) None) of
        Inl e \<Rightarrow> Inl e
      | Inr r \<Rightarrow>
          (case rhat_loop np num_missing_samples values ts of
             Inl e \<Rightarrow> Inl e
           | Inr rs \<Rightarrow> Inr (r # rs)))"

definition rhat :: "runtime \<Rightarrow> nat \<Rightarrow> matrix \<Rightarrow> int list \<Rightarrow> py_error + npfloat list" where
  "rhat np trace_dist_length values iters =
     rhat_loop np (int trace_dist_length - int (shape1 values)) values iters"

section \<open>Preparing the matrix of a variable\<close>

text \<open>
  The body of the loop over \<^verbatim>\<open>variable_values\<close> in \<^verbatim>\<open>gelman_rubin\<close>, for a
  two-dimensional \<^verbatim>\<open>value\<close>. \<^verbatim>\<open>np.where(~np.isnan(value))\<close> gives the row and column
  indices of the entries that are not NaN, in row-major order.
\<close>

definition where_not_nan :: "matrix \<Rightarrow> (nat \<times> nat) list" where
  "where_not_nan value =
     [(i, j). i \<leftarrow> [0..<shape0 value], j \<leftarrow> [0..<shape1 value], \<not> isnan (value ! i ! j)]"

text \<open>\<^verbatim>\<open>np.min\<close> and Python's \<^verbatim>\<open>max\<close> of a list that is not empty.\<close>

definition list_min :: "nat list \<Rightarrow> nat" where
  "list_min xs = foldl min (hd xs) (tl xs)"

definition list_max :: "nat list \<Rightarrow> nat" where
  "list_max xs = foldl max (hd xs) (tl xs)"

definition first_non_nans :: "matrix \<Rightarrow> nat list" where
  "first_non_nans value =
     (let rc = where_not_nan value
      in [list_min [c. (r, c) \<leftarrow> rc, r = i]. i \<leftarrow> [0..<shape0 value], i \<in> set (map fst rc)])"

definition starting_col :: "matrix \<Rightarrow> nat" where
  "starting_col value =
     (let f = first_non_nans value
      in if f \<noteq> [] then list_max f else shape1 value + 1)"

definition trim_leading :: "matrix \<Rightarrow> matrix" where
  "trim_leading value =
     (let s = starting_col value
      in if s \<noteq> 0 then map (drop s) value else value)"

text \<open>
  The inner loop over the columns of one chain: a NaN entry takes \<^verbatim>\<open>last_value\<close>, and
  \<^verbatim>\<open>last_value\<close> then becomes the entry just visited.
\<close>

fun fill_row :: "npfloat \<Rightarrow> npfloat list \<Rightarrow> npfloat list" where
  "fill_row last_value [] = []"
| "fill_row last_value (v # vs) =
     (let v' = (if isnan v then last_value else v)
      in v' # fill_row v' vs)"

text \<open>
  The outer loop over \<^verbatim>\<open>range(len(trace_dists))\<close>. Reading \<^verbatim>\<open>value[chain_idx, 0]\<close>
  raises \<^verbatim>\<open>IndexError\<close> when the chain or the column does not exist.
\<close>

fun fill_chains :: "nat list \<Rightarrow> matrix \<Rightarrow> py_error + matrix" where
  "fill_chains [] value = Inr value"
| "fill_chains (chain_idx # rest) value =
     (if chain_idx < shape0 value \<and> 0 < shape1 value
      then fill_chains rest
             (value[chain_idx := fill_row (value ! chain_idx ! 0) (value ! chain_idx)])
      else Inl IndexError)"

definition prepare_variable :: "nat \<Rightarrow> matrix \<Rightarrow> py_error + matrix" where
  "prepare_variable num_chains value = fill_chains [0..<num_chains] (trim_leading value)"

section \<open>Autocorrelation\<close>

text \<open>
  Python slices of a one-dimensional array: \<^verbatim>\<open>values[a:]\<close> and \<^verbatim>\<open>values[:b]\<close>. A
  negative bound counts from the end, and every bound is clamped to the array.
\<close>

definition slice_bound :: "nat \<Rightarrow> int \<Rightarrow> nat" where
  "slice_bound len i = (if i < 0 then nat (max 0 (int len + i)) else min len (nat i))"

definition slice_from :: "'a list \<Rightarrow> int \<Rightarrow> 'a list" where
  "slice_from xs a = drop (slice_bound (length xs) a) xs"

definition slice_to :: "'a list \<Rightarrow> int \<Rightarrow> 'a list" where
  "slice_to xs b = take (slice_bound (length xs) b) xs"

text \<open>
  \<^verbatim>\<open>np.corrcoef(x, y)[0][1]\<close> for two sequences of the same length, as the two slices
  of \<^verbatim>\<open>autocorrelation\<close> are. What NumPy computes is the runtime's \<open>np_corrcoef\<close>,
  except for sequences of fewer than two elements: the covariance then has no degree of
  freedom, NumPy warns and scales the sums of products, which are zero or NaN, by
  \<open>1 / 0\<close>, and every entry of the result is NaN.
\<close>

definition corrcoef01 :: "runtime \<Rightarrow> npfloat list \<Rightarrow> npfloat list \<Rightarrow> npfloat" where
  "corrcoef01 np x y = (if length x \<le> 1 then NaN else np_corrcoef np x y)"

text \<open>The inner function \<^verbatim>\<open>autocorrelation(values, lags)\<close> of \<^verbatim>\<open>autocorrelations\<close>.\<close>

definition autocorrelation :: "runtime \<Rightarrow> npfloat list \<Rightarrow> int list \<Rightarrow> npfloat list" where
  "autocorrelation np values lags =
     map (\<lambda>lag. if lag = 0 then Fin 1
                else corrcoef01 np (slice_from values lag) (slice_to values (- lag))) lags"

section \<open>Traces and trace distributions\<close>

text \<open>
  The collaborators that the module reads. A \<^verbatim>\<open>Variable\<close> has an address, a value (a
  tensor, here the list of its elements, so that \<^verbatim>\<open>nelement()\<close> is the length) and the
  flags \<^verbatim>\<open>control\<close> and \<^verbatim>\<open>observed\<close>. A \<^verbatim>\<open>Trace\<close> has the dictionaries
  \<^verbatim>\<open>named_variables\<close> and \<^verbatim>\<open>variables_dict_address\<close> (association lists in
  insertion order), the list \<^verbatim>\<open>variables_controlled\<close> and its log-probability.
\<close>

record variable =
  address :: string
  "value" :: "npfloat list"
  control :: bool
  observed :: bool

record trace =
  named_variables :: "(string \<times> variable) list"
  variables_controlled :: "variable list"
  variables_dict_address :: "(string \<times> variable) list"
  trace_log_prob :: npfloat

text \<open>
  Python is dynamically typed, and the module checks the types of its arguments. An
  element of a collection is a \<^verbatim>\<open>Trace\<close> or an object of another type, which has none
  of the attributes of a trace. An argument in the place of a trace distribution is an
  \<^verbatim>\<open>Empirical\<close> of elements, a plain Python list of elements, or a number (an object
  without attributes that cannot be subscripted).
\<close>

datatype pyobj = Trace trace | NotTrace

datatype pydist = Empirical "pyobj list" | PyList "pyobj list" | PyNumber

datatype pyarg = ArgList "pydist list" | ArgNotList

fun is_Trace :: "pyobj \<Rightarrow> bool" where
  "is_Trace (Trace t) = True"
| "is_Trace NotTrace = False"

fun is_Empirical :: "pydist \<Rightarrow> bool" where
  "is_Empirical (Empirical vs) = True"
| "is_Empirical _ = False"

text \<open>Sequencing of computations that may raise.\<close>

definition and_then :: "py_error + 'a \<Rightarrow> ('a \<Rightarrow> py_error + 'b) \<Rightarrow> py_error + 'b" where
  "and_then m f = (case m of Inl e \<Rightarrow> Inl e | Inr x \<Rightarrow> f x)"

fun map_err :: "('a \<Rightarrow> py_error + 'b) \<Rightarrow> 'a list \<Rightarrow> py_error + 'b list" where
  "map_err f [] = Inr []"
| "map_err f (x # xs) =
     and_then (f x) (\<lambda>y. and_then (map_err f xs) (\<lambda>ys. Inr (y # ys)))"

fun fold_err :: "('a \<Rightarrow> 's \<Rightarrow> py_error + 's) \<Rightarrow> 'a list \<Rightarrow> 's \<Rightarrow> py_error + 's" where
  "fold_err f [] s = Inr s"
| "fold_err f (x # xs) s = and_then (f x s) (fold_err f xs)"

text \<open>
  Indexing a sequence with a Python integer (a negative index counts from the end),
  \<^verbatim>\<open>x[i]\<close> on an argument, the attribute \<^verbatim>\<open>x.length\<close>, \<^verbatim>\<open>x._get_value(i)\<close>, and
  the access to an attribute of a trace.
\<close>

definition list_index :: "'a list \<Rightarrow> int \<Rightarrow> py_error + 'a" where
  "list_index xs i =
     (let j = (if i < 0 then int (length xs) + i else i)
      in if 0 \<le> j \<and> j < int (length xs) then Inr (xs ! nat j) else Inl IndexError)"

fun subscript :: "pydist \<Rightarrow> int \<Rightarrow> py_error + pyobj" where
  "subscript (Empirical vs) i = list_index vs i"
| "subscript (PyList vs) i = list_index vs i"
| "subscript PyNumber i = Inl TypeError"

fun attr_length :: "pydist \<Rightarrow> py_error + nat" where
  "attr_length (Empirical vs) = Inr (length vs)"
| "attr_length _ = Inl AttributeError"

fun get_value :: "pydist \<Rightarrow> nat \<Rightarrow> py_error + pyobj" where
  "get_value (Empirical vs) i = list_index vs (int i)"
| "get_value _ i = Inl AttributeError"

fun as_trace :: "pyobj \<Rightarrow> py_error + trace" where
  "as_trace (Trace t) = Inr t"
| "as_trace NotTrace = Inl AttributeError"

text \<open>
  \<^verbatim>\<open>float(t)\<close> of a tensor: the tensor runtime converts a tensor of one element and
  refuses any other.
\<close>

definition float_of_tensor :: "npfloat list \<Rightarrow> py_error + npfloat" where
  "float_of_tensor t = (case t of [x] \<Rightarrow> Inr x | _ \<Rightarrow> Inl ValueError)"

text \<open>
  A dictionary in insertion order: \<^verbatim>\<open>d[k] = v\<close> replaces the value of a key that is
  present, in its place, and appends a key that is new.
\<close>

definition dict_set :: "'k \<Rightarrow> 'v \<Rightarrow> ('k \<times> 'v) list \<Rightarrow> ('k \<times> 'v) list" where
  "dict_set k v d =
     (if k \<in> fst ` set d then map (\<lambda>(k', v'). if k' = k then (k', v) else (k', v')) d
      else d @ [(k, v)])"

section \<open>Log-probability traces\<close>

text \<open>
  \<^verbatim>\<open>range(0, stop, step)\<close> for a positive step, and the step
  \<^verbatim>\<open>max(1, int(length / resolution))\<close>, where the division raises on a zero
  \<^verbatim>\<open>resolution\<close> and \<^verbatim>\<open>int\<close> truncates towards zero.
\<close>

definition py_range :: "nat \<Rightarrow> nat \<Rightarrow> nat list" where
  "py_range stop step = map (\<lambda>k. k * step) [0..<(stop + step - 1) div step]"

definition log_prob_step :: "nat \<Rightarrow> int \<Rightarrow> py_error + nat" where
  "log_prob_step len resolution =
     (if resolution = 0 then Inl ZeroDivisionError
      else Inr (nat (max 1 (if 0 < resolution then int len div resolution
                           else - (int len div (- resolution))))))"

text \<open>
  The body of the loop of \<^verbatim>\<open>log_prob\<close> for one distribution, and \<^verbatim>\<open>log_prob\<close> with
  \<^verbatim>\<open>plot=False\<close>: the lists that it passes to \<^verbatim>\<open>np.array\<close>.
\<close>

definition log_prob_one :: "int \<Rightarrow> pydist \<Rightarrow> py_error + (nat list \<times> npfloat list)" where
  "log_prob_one resolution d =
     and_then (subscript d 0) (\<lambda>first.
       if \<not> is_Trace first then Inl TypeError
       else and_then (attr_length d) (\<lambda>len.
            and_then (log_prob_step len resolution) (\<lambda>step.
              let iters = py_range len step
              in and_then
                   (map_err (\<lambda>i. and_then (get_value d i) (\<lambda>obj.
                                  and_then (as_trace obj) (\<lambda>t. Inr (trace_log_prob t)))) iters)
                   (\<lambda>vals. Inr (iters, vals)))))"

fun log_prob :: "pyarg \<Rightarrow> int \<Rightarrow> py_error + (nat list list \<times> npfloat list list)" where
  "log_prob ArgNotList resolution = Inl TypeError"
| "log_prob (ArgList trace_dists) resolution =
     and_then (map_err (log_prob_one resolution) trace_dists)
       (\<lambda>rs. Inr (map fst rs, map snd rs))"

section \<open>Selecting variables\<close>

text \<open>
  The keys of \<^verbatim>\<open>variable_values\<close> are pairs of an address and a name, where the name
  is \<^verbatim>\<open>None\<close> for an address taken from the most frequent ones.
\<close>

type_synonym key = "string \<times> string option"

text \<open>
  The count of the controlled scalar variables per address over all traces, in the
  order of first appearance; the addresses that appear at least \<^verbatim>\<open>num_traces\<close> times,
  by descending count (Python's sort is stable, also with \<^verbatim>\<open>reverse=True\<close>); and the
  loop that takes them until the counter equals \<^verbatim>\<open>n_most_frequent\<close>, which never
  happens for an \<^verbatim>\<open>n_most_frequent\<close> below one.
\<close>

definition count_address :: "string \<Rightarrow> (string \<times> nat) list \<Rightarrow> (string \<times> nat) list" where
  "count_address a address_counts =
     (if a \<in> fst ` set address_counts
      then map (\<lambda>(k, c). if k = a then (k, c + 1) else (k, c)) address_counts
      else address_counts @ [(a, 1)])"

definition count_trace :: "trace \<Rightarrow> (string \<times> nat) list \<Rightarrow> (string \<times> nat) list" where
  "count_trace tr address_counts =
     foldl (\<lambda>cs variable. if length (value variable) = 1
                            then count_address (address variable) cs else cs)
       address_counts (variables_controlled tr)"

definition most_frequent_addresses :: "pydist \<Rightarrow> nat \<Rightarrow> int \<Rightarrow> py_error + string list" where
  "most_frequent_addresses trace_dist num_traces n_most_frequent =
     and_then
       (fold_err (\<lambda>i address_counts.
            and_then (get_value trace_dist i) (\<lambda>obj.
            and_then (as_trace obj) (\<lambda>tr. Inr (count_trace tr address_counts))))
          [0..<num_traces] [])
       (\<lambda>address_counts.
          let kept = filter (\<lambda>(k, v). num_traces \<le> v) address_counts;
              ordered = sort_key (\<lambda>(k, v). - int v) kept;
              addresses = map fst ordered
          in Inr (if 1 \<le> n_most_frequent then take (nat n_most_frequent) addresses
                  else addresses))"

text \<open>
  \<^verbatim>\<open>OrderedDict(sorted(variable_values.items(), reverse=True))\<close>. The keys of a
  dictionary are distinct, so the order of two items is decided by their keys: by the
  addresses, and for equal addresses by the names, where Python raises \<^verbatim>\<open>TypeError\<close>
  when it has to compare \<^verbatim>\<open>None\<close> with a string.
\<close>

definition sorted_reverse :: "(key \<times> 'v) list \<Rightarrow> py_error + (key \<times> 'v) list" where
  "sorted_reverse items =
     (if \<exists>k1\<in>fst ` set items. \<exists>k2\<in>fst ` set items.
            fst k1 = fst k2 \<and> snd k1 = None \<and> snd k2 \<noteq> None
      then Inl TypeError
      else Inr (rev (sort_key fst items)))"

section \<open>Autocorrelations of the selected variables\<close>

text \<open>
  The selection of \<^verbatim>\<open>autocorrelations\<close>. With \<^verbatim>\<open>names=None\<close> it takes the named
  variables of the last trace that are not observed and have one element; with names
  it looks each name up in the last trace. Every selected key gets a vector of zeros.
\<close>

definition named_selection ::
  "pyobj \<Rightarrow> nat \<Rightarrow> string list option \<Rightarrow> py_error + (key \<times> npfloat list) list" where
  "named_selection last_obj len names =
     (case names of
        None \<Rightarrow>
          and_then (as_trace last_obj) (\<lambda>tr.
            Inr (foldl (\<lambda>d (name, variable).
                          if \<not> observed variable \<and> length (value variable) = 1
                          then dict_set (address variable, Some name) (replicate len (Fin 0)) d
                          else d)
                   [] (named_variables tr)))
      | Some ns \<Rightarrow>
          fold_err (\<lambda>name d.
              and_then (as_trace last_obj) (\<lambda>tr.
                case map_of (named_variables tr) name of
                  None \<Rightarrow> Inl KeyError
                | Some variable \<Rightarrow>
                    Inr (dict_set (address variable, Some name) (replicate len (Fin 0)) d)))
            ns [])"

definition select_variables ::
  "pydist \<Rightarrow> string list option \<Rightarrow> int option \<Rightarrow> py_error + (key \<times> npfloat list) list" where
  "select_variables trace_dist names n_most_frequent =
     and_then (attr_length trace_dist) (\<lambda>len.
     and_then (case names of
                 Some [] \<Rightarrow> Inr []
               | _ \<Rightarrow> and_then (subscript trace_dist (- 1))
                        (\<lambda>last_obj. named_selection last_obj len names))
       (\<lambda>variable_values.
          case n_most_frequent of
            None \<Rightarrow> Inr variable_values
          | Some n \<Rightarrow>
              and_then (most_frequent_addresses trace_dist len n) (\<lambda>addresses.
                Inr (foldl (\<lambda>d a. dict_set (a, None) (replicate len (Fin 0)) d)
                       variable_values addresses))))"

text \<open>
  Loading the values: for every trace and every selected key, the value of the
  variable at the address of the key, as a float.
\<close>

definition value_at_address :: "trace \<Rightarrow> string \<Rightarrow> py_error + npfloat" where
  "value_at_address tr a =
     (case map_of (variables_dict_address tr) a of
        None \<Rightarrow> Inl KeyError
      | Some variable \<Rightarrow> float_of_tensor (value variable))"

definition store_at :: "key \<Rightarrow> nat \<Rightarrow> npfloat \<Rightarrow> (key \<times> npfloat list) list \<Rightarrow> (key \<times> npfloat list) list" where
  "store_at k i x d = map (\<lambda>(k', arr). if k' = k then (k', arr[i := x]) else (k', arr)) d"

definition load_values ::
  "pydist \<Rightarrow> nat \<Rightarrow> (key \<times> npfloat list) list \<Rightarrow> py_error + (key \<times> npfloat list) list" where
  "load_values trace_dist num_traces variable_values =
     fold_err (\<lambda>i d.
         and_then (get_value trace_dist i) (\<lambda>obj.
           fold_err (\<lambda>k d'.
               and_then (as_trace obj) (\<lambda>tr.
               and_then (value_at_address tr (fst k)) (\<lambda>x. Inr (store_at k i x d'))))
             (map fst d) d))
       [0..<num_traces] variable_values"

text \<open>
  \<^verbatim>\<open>autocorrelations(trace_dist, names, lags, n_most_frequent)\<close> with \<^verbatim>\<open>plot=False\<close>,
  over the runtime \<open>np\<close>.
  The lags are a parameter: the code computes its default, a log-spaced set, with
  floating-point logarithms. The result is the dictionary from addresses to the
  autocorrelations.
\<close>

definition autocorrelations ::
  "runtime \<Rightarrow> pydist \<Rightarrow> string list option \<Rightarrow> int list \<Rightarrow> int option
     \<Rightarrow> py_error + (int list \<times> (string \<times> npfloat list) list)" where
  "autocorrelations np trace_dist names lags n_most_frequent =
     (if \<not> is_Empirical trace_dist then Inl TypeError
      else
        and_then (subscript trace_dist 0) (\<lambda>first.
          if \<not> is_Trace first then Inl TypeError
          else
            and_then (select_variables trace_dist names n_most_frequent) (\<lambda>variable_values.
              if length variable_values = 0 then Inl RuntimeError
              else
                and_then (sorted_reverse variable_values) (\<lambda>variable_values.
                and_then (attr_length trace_dist) (\<lambda>num_traces.
                and_then (load_values trace_dist num_traces variable_values) (\<lambda>variable_values.
                  Inr (lags,
                       foldl (\<lambda>acs ((address, name), values).
                                dict_set address (autocorrelation np values lags) acs)
                         [] variable_values)))))))"

section \<open>Gelman-Rubin over several chains\<close>

text \<open>
  The values of one chain, \<^verbatim>\<open>single_trace_dist_values\<close>. A key is created with a
  vector of NaN when its variable is first recorded, and the sample of trace \<open>i\<close> is
  stored at index \<open>i\<close>. A name is recorded only if its variable is not controlled and
  has one element.
\<close>

definition record_named ::
  "nat \<Rightarrow> nat \<Rightarrow> trace \<Rightarrow> string \<Rightarrow> (key \<times> npfloat list) list
     \<Rightarrow> py_error + (key \<times> npfloat list) list" where
  "record_named len i tr name d =
     (case map_of (named_variables tr) name of
        None \<Rightarrow> Inr d
      | Some variable \<Rightarrow>
          if \<not> control variable \<and> length (value variable) = 1
          then
            let k = (address variable, Some name);
                d' = (if k \<in> fst ` set d then d else d @ [(k, replicate len NaN)])
            in and_then (float_of_tensor (value variable)) (\<lambda>x. Inr (store_at k i x d'))
          else Inr d)"

definition named_samples ::
  "pydist \<Rightarrow> nat \<Rightarrow> string list option \<Rightarrow> py_error + (key \<times> npfloat list) list" where
  "named_samples trace_dist num_traces names =
     fold_err (\<lambda>i d.
         and_then (get_value trace_dist i) (\<lambda>obj.
           case names of
             None \<Rightarrow>
               and_then (as_trace obj) (\<lambda>tr.
                 fold_err (record_named num_traces i tr) (map fst (named_variables tr)) d)
           | Some ns \<Rightarrow>
               fold_err (\<lambda>name d'.
                   and_then (as_trace obj) (\<lambda>tr. record_named num_traces i tr name d'))
                 ns d))
       [0..<num_traces] []"

definition single_trace_dist_values ::
  "nat \<Rightarrow> string list option \<Rightarrow> int option \<Rightarrow> pydist
     \<Rightarrow> py_error + (key \<times> npfloat list) list" where
  "single_trace_dist_values trace_dist_length names n_most_frequent trace_dist =
     (if \<not> is_Empirical trace_dist then Inl TypeError
      else
        and_then (subscript trace_dist 0) (\<lambda>first.
          if \<not> is_Trace first then Inl TypeError
          else
            and_then (attr_length trace_dist) (\<lambda>num_traces.
              if num_traces \<noteq> trace_dist_length then Inl ValueError
              else
                and_then (named_samples trace_dist num_traces names) (\<lambda>variable_values.
                and_then
                  (case n_most_frequent of
                     None \<Rightarrow> Inr variable_values
                   | Some n \<Rightarrow>
                       and_then (most_frequent_addresses trace_dist num_traces n) (\<lambda>addresses.
                         load_values trace_dist num_traces
                           (foldl (\<lambda>d a. dict_set (a, None) (replicate num_traces NaN) d)
                              variable_values addresses)))
                  sorted_reverse))))"

text \<open>
  The arrays of \<^verbatim>\<open>gelman_rubin\<close>: the vector of one chain, or the matrix that
  \<^verbatim>\<open>np.vstack\<close> builds from the vectors of several chains.
\<close>

datatype ndarray = Arr1 "npfloat list" | Arr2 matrix

fun array_size :: "ndarray \<Rightarrow> nat" where
  "array_size (Arr1 a) = length a"
| "array_size (Arr2 rows) = shape0 rows * shape1 rows"

fun vstack :: "ndarray \<Rightarrow> npfloat list \<Rightarrow> ndarray" where
  "vstack (Arr1 a) v = Arr2 [a, v]"
| "vstack (Arr2 rows) v = Arr2 (rows @ [v])"

definition merge_dicts ::
  "(key \<times> ndarray) list \<Rightarrow> (key \<times> npfloat list) list \<Rightarrow> (key \<times> ndarray) list" where
  "merge_dicts d1 d2 =
     foldl (\<lambda>d (k, v). case map_of d k of
                          Some old \<Rightarrow> dict_set k (vstack old v) d
                        | None \<Rightarrow> dict_set k (Arr1 v) d)
       d1 d2"

text \<open>
  The preparation of one array. \<^verbatim>\<open>r, c = x\<close> unpacks the result of \<^verbatim>\<open>np.where\<close>,
  which has one component for a vector: Python raises \<^verbatim>\<open>ValueError\<close>.
\<close>

definition prepare_array :: "nat \<Rightarrow> ndarray \<Rightarrow> py_error + matrix" where
  "prepare_array num_chains arr =
     (case arr of
        Arr1 a \<Rightarrow> Inl ValueError
      | Arr2 rows \<Rightarrow> prepare_variable num_chains rows)"

text \<open>
  \<^verbatim>\<open>gelman_rubin(trace_dists, names, n_most_frequent)\<close> with \<^verbatim>\<open>plot=False\<close>, over
  the runtime \<open>np\<close>. The
  cutoffs \<open>iters\<close> are a parameter: the code computes them, log-spaced, from the length of
  the last chain with floating-point logarithms. The result is the dictionary from
  addresses to the R-hat values.
\<close>

definition gelman_rubin ::
  "runtime \<Rightarrow> pydist list \<Rightarrow> string list option \<Rightarrow> int option \<Rightarrow> int list
     \<Rightarrow> py_error + (int list \<times> (string \<times> npfloat list) list)" where
  "gelman_rubin np trace_dists names n_most_frequent iters =
     and_then (list_index trace_dists 0) (\<lambda>first_dist.
     and_then (attr_length first_dist) (\<lambda>trace_dist_length.
     and_then
       (fold_err (\<lambda>trace_dist variable_values.
            and_then
              (single_trace_dist_values trace_dist_length names n_most_frequent trace_dist)
              (\<lambda>d. Inr (merge_dicts variable_values d)))
          trace_dists [])
       (\<lambda>variable_values.
          let variable_values =
                filter (\<lambda>(k, v). array_size v = trace_dist_length * length trace_dists)
                  variable_values
          in and_then
               (map_err (\<lambda>(k, v). and_then (prepare_array (length trace_dists) v)
                                     (\<lambda>prepared. Inr (k, prepared)))
                  variable_values)
               (\<lambda>variable_values.
                  and_then
                    (fold_err (\<lambda>((address, name), values) variable_rhats.
                         and_then (rhat np trace_dist_length values iters)
                           (\<lambda>r. Inr (dict_set address r variable_rhats)))
                       variable_values [])
                    (\<lambda>variable_rhats. Inr (iters, variable_rhats))))))"

section \<open>The distributions of the graph report\<close>

text \<open>
  The two calls of the \<^verbatim>\<open>Empirical\<close> constructor in \<^verbatim>\<open>graph\<close> for the address and
  trace identifiers, with the arguments as the code passes them. \<^verbatim>\<open>address_stats\<close>
  and \<^verbatim>\<open>trace_stats\<close> come from the graph collaborator; of each entry only the key
  and the \<^verbatim>\<open>count\<close> are read here.
\<close>

datatype id_dist =
  EmpiricalOf (dist_values: "int list") (dist_weights: "int list") (dist_name: string)

definition graph_id_dists ::
  "(string \<times> int) list \<Rightarrow> (string \<times> int) list \<Rightarrow> id_dist \<times> id_dist" where
  "graph_id_dists address_stats trace_stats =
     (let address_ids = map int [0..<length address_stats];
          address_weights = map snd address_stats;
          address_id_dist = EmpiricalOf address_ids address_weights ''Address ID'';
          trace_ids = map int [0..<length trace_stats];
          trace_weights = map snd trace_stats;
          trace_id_dist = EmpiricalOf trace_ids trace_ids ''Unique trace ID''
      in (address_id_dist, trace_id_dist))"

section \<open>The diagnostic as the specification words it\<close>

text \<open>
  The formulas of the specification for \<open>m\<close> chains of \<open>n\<close> iterations, chain by chain:
  the mean \<open>\<theta>\<^sub>i\<close> and the variance \<open>\<sigma>\<^sub>i\<close> of row \<open>i\<close>, the between-chain variance
  \<open>B = n/(m-1) \<cdot> \<Sum>\<^sub>i (\<theta>\<^sub>i - mean(\<theta>))\<^sup>2\<close>, the within-chain variance \<open>W = (1/m) \<cdot> \<Sum>\<^sub>i \<sigma>\<^sub>i\<close> and
  the pooled estimate \<open>V = (n-1)/n \<cdot> W + (m+1)/(m\<cdot>n) \<cdot> B\<close>. Every operation is the
  runtime's, on \<^verbatim>\<open>float64\<close> values.
\<close>

definition chain_mean :: "runtime \<Rightarrow> matrix \<Rightarrow> nat \<Rightarrow> npfloat" where
  "chain_mean np x i = np_mean np (x ! i)"

definition chain_variance :: "runtime \<Rightarrow> matrix \<Rightarrow> nat \<Rightarrow> npfloat" where
  "chain_variance np x i = np_var np (x ! i)"

definition ratio :: "runtime \<Rightarrow> int \<Rightarrow> int \<Rightarrow> npfloat" where
  "ratio np a b = fl_div np (py_float np a) (py_float np b)"

definition between_chain_variance :: "runtime \<Rightarrow> matrix \<Rightarrow> npfloat" where
  "between_chain_variance np x =
     (let m = shape0 x; n = shape1 x;
          theta_bar = np_mean np (map (chain_mean np x) [0..<m])
      in fl_mul np (ratio np (int n) (int m - 1))
           (np_sum np (map (\<lambda>i. np_power2 np (fl_sub np (chain_mean np x i) theta_bar)) [0..<m])))"

definition within_chain_variance :: "runtime \<Rightarrow> matrix \<Rightarrow> npfloat" where
  "within_chain_variance np x =
     (let m = shape0 x
      in fl_mul np (fl_div np (Fin 1) (py_float np (int m)))
           (np_sum np (map (chain_variance np x) [0..<m])))"

definition pooled_variance :: "runtime \<Rightarrow> matrix \<Rightarrow> npfloat" where
  "pooled_variance np x =
     (let m = shape0 x; n = shape1 x
      in fl_add np
           (fl_mul np (ratio np (int n - 1) (int n)) (within_chain_variance np x))
           (fl_mul np (ratio np (int m + 1) (int m * int n)) (between_chain_variance np x)))"

text \<open>
  Words of the specification about a matrix of samples, where NaN marks a sample that is
  missing: a chain in which the variable appears at all, the first column of a chain that
  is not missing, a matrix whose only missing entry is at column \<open>i\<close> of chain \<open>c\<close>.
  NumPy arrays are rectangular: every row has \<^verbatim>\<open>shape[1]\<close> entries.
\<close>

definition has_present :: "npfloat list \<Rightarrow> bool" where
  "has_present row = (\<exists>v\<in>set row. \<not> isnan v)"

definition first_present :: "npfloat list \<Rightarrow> nat" where
  "first_present row = length (takeWhile isnan row)"

definition single_missing :: "matrix \<Rightarrow> nat \<Rightarrow> nat \<Rightarrow> bool" where
  "single_missing v c i =
     (c < length v \<and> i < length (v ! c)
      \<and> (\<forall>c'<length v. \<forall>j<length (v ! c'). isnan (v ! c' ! j) \<longleftrightarrow> c' = c \<and> j = i))"

definition rectangular :: "matrix \<Rightarrow> bool" where
  "rectangular mat = (\<forall>row\<in>set mat. length row = shape1 mat)"



section \<open>Example traces\<close>

text \<open>
  A trace with two named variables: \<^verbatim>\<open>mu\<close>, which is controlled, and \<^verbatim>\<open>obs0\<close>,
  which is observed.
\<close>

definition example_trace :: trace where
  "example_trace =
     \<lparr>named_variables =
        [(''mu'', \<lparr>address = ''a1'', value = [Fin 1], control = True, observed = False\<rparr>),
         (''obs0'', \<lparr>address = ''a0'', value = [Fin 2], control = False, observed = True\<rparr>)],
      variables_controlled =
        [\<lparr>address = ''a1'', value = [Fin 1], control = True, observed = False\<rparr>],
      variables_dict_address =
        [(''a1'', \<lparr>address = ''a1'', value = [Fin 1], control = True, observed = False\<rparr>),
         (''a0'', \<lparr>address = ''a0'', value = [Fin 2], control = False, observed = True\<rparr>)],
      trace_log_prob = Fin 0\<rparr>"


section \<open>Properties of the Gelman-Rubin diagnostic\<close>

lemma map_chains: "map f x = map (\<lambda>i. f (x ! i)) [0..<shape0 x]"
  unfolding shape0_def by (rule nth_equalityI) simp_all

text \<open>
  The two exceptions of the diagnostic: fewer than two chains, and, through the Python
  division by \<^verbatim>\<open>float(n)\<close>, a matrix that has no column.
\<close>

lemma gelman_rubin_diagnostic_raises:
  "shape0 x < 2 \<Longrightarrow> gelman_rubin_diagnostic np x mu = Inl ValueError"
  "2 \<le> shape0 x \<Longrightarrow> shape1 x = 0 \<Longrightarrow> gelman_rubin_diagnostic np x mu = Inl ZeroDivisionError"
  by (simp_all add: gelman_rubin_diagnostic_def Let_def)

text \<open>
  Claim C1. For a matrix of \<open>m \<ge> 2\<close> chains and \<open>n \<ge> 1\<close> iterations, the diagnostic is
  the square root of \<open>V / W\<close>, with the between-chain variance \<open>B\<close>, the within-chain
  variance \<open>W\<close> and the pooled estimate \<open>V\<close> of the specification, computed from the
  means and variances of the rows. The operations are those of the runtime on
  \<^verbatim>\<open>float64\<close> values, whatever they return; the result is a \<^verbatim>\<open>float64\<close> value, which can
  be an infinity or NaN.
\<close>

theorem gelman_rubin_diagnostic_formula:
  assumes m: "2 \<le> shape0 x" and n: "1 \<le> shape1 x"
  shows "gelman_rubin_diagnostic np x None
           = Inr (np_sqrt np (fl_div np (pooled_variance np x) (within_chain_variance np x)))"
proof -
  have theta: "map (np_mean np) x = map (chain_mean np x) [0..<shape0 x]"
    using map_chains [of "np_mean np" x] by (simp add: chain_mean_def [abs_def])
  have sigma: "map (np_var np) x = map (chain_variance np x) [0..<shape0 x]"
    using map_chains [of "np_var np" x] by (simp add: chain_variance_def [abs_def])
  have squares:
    "map (\<lambda>t. np_power2 np (fl_sub np t c)) (map (chain_mean np x) [0..<shape0 x])
       = map (\<lambda>i. np_power2 np (fl_sub np (chain_mean np x i) c)) [0..<shape0 x]" for c
    by simp
  have w: "fl_mul np (fl_div np (Fin 1) (py_float np (int (shape0 x)))) (np_sum np (map (np_var np) x))
             = within_chain_variance np x"
    unfolding sigma by (simp add: within_chain_variance_def Let_def)
  have b: "fl_mul np (fl_div np (py_float np (int (shape1 x))) (py_float np (int (shape0 x) - 1)))
             (np_sum np (map (\<lambda>t. np_power2 np (fl_sub np t (np_mean np (map (np_mean np) x))))
                           (map (np_mean np) x)))
             = between_chain_variance np x"
    unfolding theta squares by (simp add: between_chain_variance_def ratio_def Let_def)
  have v: "fl_add np
             (fl_mul np (fl_div np (py_float np (int (shape1 x) - 1)) (py_float np (int (shape1 x))))
                (within_chain_variance np x))
             (fl_mul np
                (fl_div np (py_float np (int (shape0 x + 1)))
                   (py_float np (int (shape0 x * shape1 x))))
                (between_chain_variance np x))
             = pooled_variance np x"
    by (simp add: pooled_variance_def ratio_def Let_def add.commute)
  from m n have "gelman_rubin_diagnostic np x None
      = Inr (np_sqrt np (fl_div np
               (fl_add np
                  (fl_mul np
                     (fl_div np (py_float np (int (shape1 x) - 1)) (py_float np (int (shape1 x))))
                     (fl_mul np (fl_div np (Fin 1) (py_float np (int (shape0 x))))
                        (np_sum np (map (np_var np) x))))
                  (fl_mul np
                     (fl_div np (py_float np (int (shape0 x + 1)))
                        (py_float np (int (shape0 x * shape1 x))))
                     (fl_mul np
                        (fl_div np (py_float np (int (shape1 x))) (py_float np (int (shape0 x) - 1)))
                        (np_sum np
                           (map (\<lambda>t. np_power2 np (fl_sub np t (np_mean np (map (np_mean np) x))))
                              (map (np_mean np) x))))))
               (fl_mul np (fl_div np (Fin 1) (py_float np (int (shape0 x))))
                  (np_sum np (map (np_var np) x)))))"
    by (simp add: gelman_rubin_diagnostic_def Let_def)
  then show ?thesis
    unfolding b w v .
qed

theorem gelman_rubin_diagnostic_formula_witness:
  "\<forall>np. gelman_rubin_diagnostic np [[Fin 1, Fin 3], [Fin 2, Fin 4]] None
           = Inr (np_sqrt np (fl_div np (pooled_variance np [[Fin 1, Fin 3], [Fin 2, Fin 4]])
                                (within_chain_variance np [[Fin 1, Fin 3], [Fin 2, Fin 4]])))
       \<and> within_chain_variance np [[Fin 1, Fin 3], [Fin 2, Fin 4]]
           = fl_mul np (fl_div np (Fin 1) (py_float np 2))
               (np_sum np [np_var np [Fin 1, Fin 3], np_var np [Fin 2, Fin 4]])
       \<and> between_chain_variance np [[Fin 1, Fin 3], [Fin 2, Fin 4]]
           = fl_mul np (fl_div np (py_float np 2) (py_float np 1))
               (np_sum np
                  [np_power2 np (fl_sub np (np_mean np [Fin 1, Fin 3])
                                   (np_mean np [np_mean np [Fin 1, Fin 3], np_mean np [Fin 2, Fin 4]])),
                   np_power2 np (fl_sub np (np_mean np [Fin 2, Fin 4])
                                   (np_mean np [np_mean np [Fin 1, Fin 3], np_mean np [Fin 2, Fin 4]]))])"
proof (intro allI conjI)
  fix np
  have m: "2 \<le> shape0 [[Fin 1, Fin 3], [Fin 2, Fin 4]]" by (simp add: shape0_def)
  have n: "1 \<le> shape1 [[Fin 1, Fin 3], [Fin 2, Fin 4]]" by (simp add: shape1_def)
  show "gelman_rubin_diagnostic np [[Fin 1, Fin 3], [Fin 2, Fin 4]] None
           = Inr (np_sqrt np (fl_div np (pooled_variance np [[Fin 1, Fin 3], [Fin 2, Fin 4]])
                                (within_chain_variance np [[Fin 1, Fin 3], [Fin 2, Fin 4]])))"
    by (rule gelman_rubin_diagnostic_formula [OF m n])
next
  fix np
  have upt2: "[0..<2] = [0, Suc 0]" by (simp add: upt_rec)
  show "within_chain_variance np [[Fin 1, Fin 3], [Fin 2, Fin 4]]
           = fl_mul np (fl_div np (Fin 1) (py_float np 2))
               (np_sum np [np_var np [Fin 1, Fin 3], np_var np [Fin 2, Fin 4]])"
    by (simp add: within_chain_variance_def chain_variance_def shape0_def upt2)
next
  fix np
  have upt2: "[0..<2] = [0, Suc 0]" by (simp add: upt_rec)
  show "between_chain_variance np [[Fin 1, Fin 3], [Fin 2, Fin 4]]
           = fl_mul np (fl_div np (py_float np 2) (py_float np 1))
               (np_sum np
                  [np_power2 np (fl_sub np (np_mean np [Fin 1, Fin 3])
                                   (np_mean np [np_mean np [Fin 1, Fin 3], np_mean np [Fin 2, Fin 4]])),
                   np_power2 np (fl_sub np (np_mean np [Fin 2, Fin 4])
                                   (np_mean np [np_mean np [Fin 1, Fin 3], np_mean np [Fin 2, Fin 4]]))])"
    by (simp add: between_chain_variance_def chain_mean_def ratio_def shape0_def shape1_def upt2)
qed

section \<open>Properties of the cutoffs\<close>

lemma gelman_rubin_diagnostic_returns:
  assumes "2 \<le> shape0 x" and "1 \<le> shape1 x"
  shows "\<exists>r. gelman_rubin_diagnostic np x None = Inr r"
  using assms by (simp add: gelman_rubin_diagnostic_def Let_def)

lemma shape0_take [simp]: "shape0 (map (take k) values) = shape0 values"
  by (simp add: shape0_def)

lemma shape1_take [simp]: "shape1 (map (take k) values) = min (shape1 values) k"
  by (cases "values") (simp_all add: shape1_def)

lemma rhat_loop_entries:
  assumes "rhat_loop np k values iters = Inr ret"
  shows "length ret = length iters
       \<and> (\<forall>i<length iters.
            (iters ! i \<le> k \<longrightarrow> ret ! i = NaN)
          \<and> (k < iters ! i \<longrightarrow>
               gelman_rubin_diagnostic np (map (take (nat (iters ! i - k))) values) None
                 = Inr (ret ! i)))"
  using assms
proof (induction iters arbitrary: ret)
  case Nil
  then show ?case by simp
next
  case (Cons t ts)
  from Cons.prems obtain r rs where
    r: "(if t \<le> k then Inr NaN
         else gelman_rubin_diagnostic np (map (take (nat (t - k))) values) None) = Inr r"
    and rs: "rhat_loop np k values ts = Inr rs" and ret: "ret = r # rs"
    by (auto split: sum.splits)
  have IH: "length rs = length ts
       \<and> (\<forall>i<length ts.
            (ts ! i \<le> k \<longrightarrow> rs ! i = NaN)
          \<and> (k < ts ! i \<longrightarrow>
               gelman_rubin_diagnostic np (map (take (nat (ts ! i - k))) values) None
                 = Inr (rs ! i)))"
    using Cons.IH [OF rs] .
  show ?case
  proof (intro conjI allI impI)
    show "length ret = length (t # ts)" using IH ret by simp
  next
    fix i assume i: "i < length (t # ts)" and le: "(t # ts) ! i \<le> k"
    show "ret ! i = NaN"
    proof (cases i)
      case 0
      with le r ret show ?thesis by simp
    next
      case (Suc j)
      with i le IH ret show ?thesis by simp
    qed
  next
    fix i assume i: "i < length (t # ts)" and gt: "k < (t # ts) ! i"
    show "gelman_rubin_diagnostic np (map (take (nat ((t # ts) ! i - k))) values) None = Inr (ret ! i)"
    proof (cases i)
      case 0
      with gt r ret show ?thesis by simp
    next
      case (Suc j)
      with i gt IH ret show ?thesis by simp
    qed
  qed
qed

lemma rhat_loop_returns:
  assumes m: "2 \<le> shape0 values" and n: "1 \<le> shape1 values"
  shows "\<exists>ret. rhat_loop np k values iters = Inr ret"
proof (induction iters)
  case Nil
  show ?case by simp
next
  case (Cons t ts)
  then obtain rs where rs: "rhat_loop np k values ts = Inr rs" by blast
  show ?case
  proof (cases "t \<le> k")
    case True
    with rs show ?thesis by simp
  next
    case False
    then have "1 \<le> shape1 (map (take (nat (t - k))) values)" using n by simp
    moreover have "2 \<le> shape0 (map (take (nat (t - k))) values)" using m by simp
    ultimately obtain r where
      "gelman_rubin_diagnostic np (map (take (nat (t - k))) values) None = Inr r"
      using gelman_rubin_diagnostic_returns by blast
    with False rs show ?thesis by simp
  qed
qed

text \<open>
  Claim C5, as the code has it. For a matrix of at least two chains and at least one
  column, \<^verbatim>\<open>rhat\<close> returns one entry per cutoff. With
  \<open>num_missing = trace_dist_length - values.shape[1]\<close>, the entry of a cutoff \<open>t\<close> is NaN
  when \<open>t \<le> num_missing\<close>, that is at the number of missing samples as well as below
  it; otherwise it is the Gelman-Rubin diagnostic of the first \<open>t - num_missing\<close>
  columns, which can be NaN itself.
\<close>

theorem rhat_cutoffs:
  assumes m: "2 \<le> shape0 values" and n: "1 \<le> shape1 values"
  shows "\<exists>ret. rhat np trace_dist_length values iters = Inr ret
           \<and> length ret = length iters
           \<and> (\<forall>i<length iters.
                (iters ! i \<le> int trace_dist_length - int (shape1 values) \<longrightarrow> ret ! i = NaN)
              \<and> (int trace_dist_length - int (shape1 values) < iters ! i \<longrightarrow>
                   gelman_rubin_diagnostic np
                     (map (take (nat (iters ! i - (int trace_dist_length - int (shape1 values)))))
                        values) None
                     = Inr (ret ! i)))"
proof -
  let ?k = "int trace_dist_length - int (shape1 values)"
  obtain ret where ret: "rhat_loop np ?k values iters = Inr ret"
    using rhat_loop_returns [OF m n] by blast
  from rhat_loop_entries [OF ret] ret show ?thesis
    unfolding rhat_def by blast
qed

theorem rhat_cutoffs_witness:
  "\<forall>np. \<exists>r. rhat np 3 [[Fin 1, Fin 3], [Fin 2, Fin 4]] [1, 3] = Inr [NaN, r]
            \<and> gelman_rubin_diagnostic np [[Fin 1, Fin 3], [Fin 2, Fin 4]] None = Inr r"
proof
  fix np
  let ?v = "[[Fin 1, Fin 3], [Fin 2, Fin 4]]"
  have m: "2 \<le> shape0 ?v" by (simp add: shape0_def)
  have n: "1 \<le> shape1 ?v" by (simp add: shape1_def)
  have s1: "shape1 ?v = 2" by (simp add: shape1_def)
  from rhat_cutoffs [OF m n, of np 3 "[1, 3]"] obtain ret where
    r: "rhat np 3 ?v [1, 3] = Inr ret" and len: "length ret = 2"
    and e: "\<forall>i<2. ([1, 3] ! i \<le> int 3 - int (shape1 ?v) \<longrightarrow> ret ! i = NaN)
              \<and> (int 3 - int (shape1 ?v) < [1, 3] ! i \<longrightarrow>
                   gelman_rubin_diagnostic np
                     (map (take (nat ([1, 3] ! i - (int 3 - int (shape1 ?v))))) ?v) None
                     = Inr (ret ! i))"
    by auto
  from e [rule_format, of 0] have r0: "ret ! 0 = NaN" by (simp add: s1)
  from e [rule_format, of 1] have r1: "gelman_rubin_diagnostic np ?v None = Inr (ret ! 1)"
    by (simp add: s1)
  from len obtain a b where ab: "ret = [a, b]"
    by (cases ret; cases "tl ret") auto
  with r0 r1 r show "\<exists>r. rhat np 3 ?v [1, 3] = Inr [NaN, r]
            \<and> gelman_rubin_diagnostic np ?v None = Inr r"
    by simp
qed

text \<open>
  The entry at the cutoff \<open>t = num_missing\<close> is NaN although \<open>t\<close> is not below
  \<open>num_missing\<close>.
\<close>

theorem rhat_nan_counterexample:
  "(\<forall>np. rhat np 3 [[Fin 1, Fin 2], [Fin 3, Fin 5]] [1] = Inr [NaN])
   \<and> \<not> ((1::int) < int 3 - int (shape1 [[Fin 1, Fin 2], [Fin 3, Fin 5]]))"
  by (simp add: rhat_def shape1_def)

section \<open>Properties of trimming and filling\<close>

lemma concat_map_if: "concat (map (\<lambda>i. if Q i then [f i] else []) xs) = map f (filter Q xs)"
  by (induction xs) simp_all

lemma cols_of_Pair:
  "[c. (r, c) \<leftarrow> map (Pair k) ys, r = i] = (if k = i then ys else [])"
  by (induction ys) simp_all

lemma cols_append:
  "[c. (r, c) \<leftarrow> xs @ ys, r = i] = [c. (r, c) \<leftarrow> xs, r = i] @ [c. (r, c) \<leftarrow> ys, r = i]"
  by simp

lemma cols_of_row_aux:
  "distinct ks \<Longrightarrow>
   [c. (r, c) \<leftarrow> concat (map (\<lambda>i. map (Pair i) (g i)) ks), r = i]
     = (if i \<in> set ks then g i else [])"
proof (induction ks)
  case Nil
  show ?case by simp
next
  case (Cons k ks)
  have IH: "[c. (r, c) \<leftarrow> concat (map (\<lambda>i. map (Pair i) (g i)) ks), r = i]
      = (if i \<in> set ks then g i else [])"
    using Cons by simp
  have k: "k \<notin> set ks" using Cons.prems by simp
  have "[c. (r, c) \<leftarrow> concat (map (\<lambda>i. map (Pair i) (g i)) (k # ks)), r = i]
      = (if k = i then g k else []) @ (if i \<in> set ks then g i else [])"
    unfolding list.map concat.simps cols_append cols_of_Pair IH ..
  also have "\<dots> = (if i \<in> set (k # ks) then g i else [])"
    using k by auto
  finally show ?case .
qed

lemma where_not_nan_concat:
  "where_not_nan mat
     = concat (map (\<lambda>i. map (Pair i) (filter (\<lambda>j. \<not> isnan (mat ! i ! j)) [0..<shape1 mat]))
         [0..<shape0 mat])"
  unfolding where_not_nan_def
  by (rule arg_cong [where f = concat]) (simp add: concat_map_if)

lemma cols_of_row:
  "i < shape0 mat \<Longrightarrow>
   [c. (r, c) \<leftarrow> where_not_nan mat, r = i]
     = filter (\<lambda>j. \<not> isnan (mat ! i ! j)) [0..<shape1 mat]"
  unfolding where_not_nan_concat by (subst cols_of_row_aux) simp_all

lemma rows_of_where:
  "set (map fst (where_not_nan mat))
     = {i. i < shape0 mat \<and> (\<exists>j<shape1 mat. \<not> isnan (mat ! i ! j))}"
  unfolding where_not_nan_concat by (auto simp: image_iff)

lemma list_min_Min: "xs \<noteq> [] \<Longrightarrow> list_min xs = Min (set xs)"
proof (cases xs)
  case Nil
  moreover assume "xs \<noteq> []"
  ultimately show ?thesis by simp
next
  case (Cons x ys)
  have "foldl min x ys = fold min ys x"
    by (simp add: foldl_conv_fold min.commute)
  also have "\<dots> = Min (set (x # ys))"
    by (rule Min.set_eq_fold [symmetric])
  finally show ?thesis using Cons by (simp add: list_min_def)
qed

lemma list_max_Max: "xs \<noteq> [] \<Longrightarrow> list_max xs = Max (set xs)"
proof (cases xs)
  case Nil
  moreover assume "xs \<noteq> []"
  ultimately show ?thesis by simp
next
  case (Cons x ys)
  have "foldl max x ys = fold max ys x"
    by (simp add: foldl_conv_fold max.commute)
  also have "\<dots> = Max (set (x # ys))"
    by (rule Max.set_eq_fold [symmetric])
  finally show ?thesis using Cons by (simp add: list_max_def)
qed

lemma first_present_less: "has_present row \<Longrightarrow> first_present row < length row"
proof -
  assume "has_present row"
  then have "takeWhile isnan row \<noteq> row"
    by (auto simp: has_present_def takeWhile_eq_all_conv)
  moreover have "length (takeWhile isnan row) \<le> length row"
    by (rule length_takeWhile_le)
  ultimately show ?thesis
    unfolding first_present_def
    by (metis le_neq_implies_less takeWhile_eq_take take_all order_refl)
qed

lemma first_present_not_nan: "has_present row \<Longrightarrow> \<not> isnan (row ! first_present row)"
  using first_present_less [of row] nth_length_takeWhile [of isnan row]
  by (simp add: first_present_def)

lemma before_first_present: "j < first_present row \<Longrightarrow> isnan (row ! j)"
  unfolding first_present_def
  by (metis nth_mem set_takeWhileD takeWhile_nth)

lemma min_present_col:
  assumes "has_present row"
  shows "Min {j. j < length row \<and> \<not> isnan (row ! j)} = first_present row"
proof (rule Min_eqI)
  show "finite {j. j < length row \<and> \<not> isnan (row ! j)}" by simp
next
  fix y assume "y \<in> {j. j < length row \<and> \<not> isnan (row ! j)}"
  then show "first_present row \<le> y"
    using before_first_present [of y row] by (auto simp: not_less [symmetric])
next
  show "first_present row \<in> {j. j < length row \<and> \<not> isnan (row ! j)}"
    using assms first_present_less first_present_not_nan by simp
qed

lemma has_present_nth: "has_present row \<longleftrightarrow> (\<exists>j<length row. \<not> isnan (row ! j))"
  unfolding has_present_def by (metis in_set_conv_nth)

lemma first_non_nans_rows:
  assumes rect: "rectangular mat"
  shows "first_non_nans mat = map first_present (filter has_present mat)"
proof -
  let ?m = "shape0 mat"
  let ?n = "shape1 mat"
  have len: "\<And>i. i < ?m \<Longrightarrow> length (mat ! i) = ?n"
    using rect by (simp add: rectangular_def shape0_def)
  have Q: "\<And>i. i < ?m \<Longrightarrow>
      (i \<in> set (map fst (where_not_nan mat))) = has_present (mat ! i)"
    unfolding rows_of_where using len by (simp add: has_present_nth)
  have F: "\<And>i. i < ?m \<Longrightarrow> has_present (mat ! i) \<Longrightarrow>
      list_min [c. (r, c) \<leftarrow> where_not_nan mat, r = i] = first_present (mat ! i)"
  proof -
    fix i assume i: "i < ?m" and hp: "has_present (mat ! i)"
    let ?cs = "filter (\<lambda>j. \<not> isnan (mat ! i ! j)) [0..<?n]"
    have s: "set ?cs = {j. j < length (mat ! i) \<and> \<not> isnan (mat ! i ! j)}"
      using len [OF i] by auto
    have "first_present (mat ! i) \<in> set ?cs"
      unfolding s using hp first_present_less first_present_not_nan by simp
    then have ne: "?cs \<noteq> []" by (metis empty_iff list.set(1))
    show "list_min [c. (r, c) \<leftarrow> where_not_nan mat, r = i] = first_present (mat ! i)"
      unfolding cols_of_row [OF i] list_min_Min [OF ne] s by (rule min_present_col [OF hp])
  qed
  have "first_non_nans mat
      = map (\<lambda>i. list_min [c. (r, c) \<leftarrow> where_not_nan mat, r = i])
          (filter (\<lambda>i. i \<in> set (map fst (where_not_nan mat))) [0..<?m])"
    unfolding first_non_nans_def Let_def by (simp only: concat_map_if)
  also have "\<dots> = map (\<lambda>i. first_present (mat ! i))
          (filter (\<lambda>i. has_present (mat ! i)) [0..<?m])"
  proof -
    have f: "filter (\<lambda>i. i \<in> set (map fst (where_not_nan mat))) [0..<?m]
        = filter (\<lambda>i. has_present (mat ! i)) [0..<?m]"
      by (rule filter_cong) (simp_all add: Q del: set_map)
    show ?thesis unfolding f by (rule map_cong) (simp_all add: F)
  qed
  also have "\<dots> = map first_present (filter has_present (map (nth mat) [0..<?m]))"
    by (simp add: filter_map comp_def)
  also have "map (nth mat) [0..<?m] = mat"
    unfolding shape0_def by (rule map_nth)
  finally show ?thesis .
qed

lemma starting_col_max:
  assumes rect: "rectangular mat" and some: "\<exists>row\<in>set mat. has_present row"
  shows "starting_col mat = Max (first_present ` {row \<in> set mat. has_present row})"
proof -
  have ne: "map first_present (filter has_present mat) \<noteq> []"
    using some by (auto simp: filter_empty_conv)
  have "starting_col mat = list_max (map first_present (filter has_present mat))"
    using ne by (simp add: starting_col_def first_non_nans_rows [OF rect])
  also have "\<dots> = Max (set (map first_present (filter has_present mat)))"
    using ne by (rule list_max_Max)
  also have "set (map first_present (filter has_present mat))
      = first_present ` {row \<in> set mat. has_present row}"
    by auto
  finally show ?thesis .
qed

lemma trim_leading_drop: "trim_leading mat = map (drop (starting_col mat)) mat"
  by (simp add: trim_leading_def Let_def)


lemma fill_row_length [simp]: "length (fill_row l row) = length row"
  by (induction row arbitrary: l) (simp_all add: Let_def)

lemma fill_row_no_nan: "\<forall>v\<in>set row. \<not> isnan v \<Longrightarrow> fill_row l row = row"
  by (induction row arbitrary: l) (simp_all add: Let_def)

lemma fill_row_single:
  assumes "i < length row" and "\<forall>j<length row. isnan (row ! j) \<longleftrightarrow> j = i"
  shows "fill_row l row = row[i := (if i = 0 then l else row ! (i - 1))]"
  using assms
proof (induction row arbitrary: l i)
  case Nil
  then show ?case by simp
next
  case (Cons v vs)
  show ?case
  proof (cases i)
    case 0
    have nan: "isnan v" using Cons.prems(2) 0 by auto
    have "\<forall>w\<in>set vs. \<not> isnan w"
    proof
      fix w assume "w \<in> set vs"
      then obtain j where j: "j < length vs" "vs ! j = w" by (auto simp: in_set_conv_nth)
      then have "isnan ((v # vs) ! Suc j) \<longleftrightarrow> Suc j = i" using Cons.prems(2) by auto
      with 0 j show "\<not> isnan w" by simp
    qed
    then have "fill_row l vs = vs" by (rule fill_row_no_nan)
    with 0 nan show ?thesis by (simp add: Let_def)
  next
    case (Suc k)
    have v: "\<not> isnan v" using Cons.prems(2) Suc by auto
    have k: "k < length vs" using Cons.prems(1) Suc by simp
    have rest: "\<forall>j<length vs. isnan (vs ! j) \<longleftrightarrow> j = k"
    proof (intro allI impI)
      fix j assume "j < length vs"
      then have "isnan ((v # vs) ! Suc j) \<longleftrightarrow> Suc j = i" using Cons.prems(2) by auto
      with Suc show "isnan (vs ! j) \<longleftrightarrow> j = k" by simp
    qed
    have "fill_row v vs = vs[k := (if k = 0 then v else vs ! (k - 1))]"
      using Cons.IH [OF k rest] .
    with v Suc show ?thesis by (cases k) (simp_all add: Let_def)
  qed
qed

lemma shape1_update:
  "c < length v \<Longrightarrow> length r = length (v ! c) \<Longrightarrow> shape1 (v[c := r]) = shape1 v"
  by (cases v; cases c) (simp_all add: shape1_def)

lemma fill_chains_rows:
  assumes "distinct cs" and "\<forall>c\<in>set cs. c < length v" and "0 < shape1 v"
  shows "fill_chains cs v
     = Inr (map (\<lambda>k. if k \<in> set cs then fill_row (v ! k ! 0) (v ! k) else v ! k) [0..<length v])"
  using assms
proof (induction cs arbitrary: v)
  case Nil
  show ?case by (simp add: map_nth)
next
  case (Cons c cs)
  let ?v' = "v[c := fill_row (v ! c ! 0) (v ! c)]"
  have c: "c < length v" and cs: "\<forall>k\<in>set cs. k < length ?v'" and d: "distinct cs"
    and notin: "c \<notin> set cs"
    using Cons.prems by simp_all
  have s1: "shape1 ?v' = shape1 v" using c by (simp add: shape1_update)
  have IH: "fill_chains cs ?v'
     = Inr (map (\<lambda>k. if k \<in> set cs then fill_row (?v' ! k ! 0) (?v' ! k) else ?v' ! k)
         [0..<length ?v'])"
    using Cons.IH [OF d cs] Cons.prems(3) s1 by simp
  have "map (\<lambda>k. if k \<in> set cs then fill_row (?v' ! k ! 0) (?v' ! k) else ?v' ! k) [0..<length ?v']
      = map (\<lambda>k. if k \<in> set (c # cs) then fill_row (v ! k ! 0) (v ! k) else v ! k) [0..<length v]"
    using notin c by (auto simp: nth_list_update)
  with IH c Cons.prems(3) show ?case by (simp add: shape0_def)
qed

lemma fill_single_missing:
  assumes rect: "rectangular v" and one: "single_missing v c i" and pos: "0 < i"
  shows "fill_chains [0..<length v] v = Inr (v[c := (v ! c)[i := v ! c ! (i - 1)]])"
proof -
  have c: "c < length v" and i: "i < length (v ! c)"
    and nan: "\<And>c' j. c' < length v \<Longrightarrow> j < length (v ! c') \<Longrightarrow>
                isnan (v ! c' ! j) \<longleftrightarrow> c' = c \<and> j = i"
    using one by (simp_all add: single_missing_def)
  have "length (v ! c) = shape1 v" using rect c by (simp add: rectangular_def)
  then have s1: "0 < shape1 v" using i by simp
  have rows: "fill_chains [0..<length v] v
      = Inr (map (\<lambda>k. if k \<in> set [0..<length v] then fill_row (v ! k ! 0) (v ! k) else v ! k)
          [0..<length v])"
    using s1 by (intro fill_chains_rows) simp_all
  have "map (\<lambda>k. if k \<in> set [0..<length v] then fill_row (v ! k ! 0) (v ! k) else v ! k)
          [0..<length v]
      = v[c := (v ! c)[i := v ! c ! (i - 1)]]"
  proof (rule nth_equalityI)
    show "length (map (\<lambda>k. if k \<in> set [0..<length v] then fill_row (v ! k ! 0) (v ! k) else v ! k)
          [0..<length v]) = length (v[c := (v ! c)[i := v ! c ! (i - 1)]])"
      by simp
  next
    fix k
    assume "k < length (map (\<lambda>k. if k \<in> set [0..<length v]
                 then fill_row (v ! k ! 0) (v ! k) else v ! k) [0..<length v])"
    then have k: "k < length v" by simp
    have "fill_row (v ! k ! 0) (v ! k) = (v[c := (v ! c)[i := v ! c ! (i - 1)]]) ! k"
    proof (cases "k = c")
      case True
      have "\<forall>j<length (v ! c). isnan (v ! c ! j) \<longleftrightarrow> j = i"
        using nan [OF c] by simp
      then have "fill_row (v ! c ! 0) (v ! c)
          = (v ! c)[i := (if i = 0 then v ! c ! 0 else v ! c ! (i - 1))]"
        using i by (intro fill_row_single) simp_all
      with True c pos show ?thesis by simp
    next
      case False
      have "\<forall>w\<in>set (v ! k). \<not> isnan w"
      proof
        fix w assume "w \<in> set (v ! k)"
        then obtain j where j: "j < length (v ! k)" "v ! k ! j = w"
          by (auto simp: in_set_conv_nth)
        with nan [OF k j(1)] False show "\<not> isnan w" by simp
      qed
      then have "fill_row (v ! k ! 0) (v ! k) = v ! k" by (rule fill_row_no_nan)
      with False show ?thesis by simp
    qed
    with k show "map (\<lambda>k. if k \<in> set [0..<length v] then fill_row (v ! k ! 0) (v ! k) else v ! k)
          [0..<length v] ! k = (v[c := (v ! c)[i := v ! c ! (i - 1)]]) ! k"
      by simp
  qed
  with rows show ?thesis by simp
qed

lemma rectangular_trim: "rectangular mat \<Longrightarrow> rectangular (trim_leading mat)"
  unfolding trim_leading_drop rectangular_def
  by (cases "mat") (auto simp: shape1_def)

text \<open>
  Claim C3. The matrix of a variable is trimmed to start at the maximum, over the chains
  in which the variable appears, of the chain's first column that is not missing. If the
  trimmed matrix has a single missing entry, at a column \<open>i > 0\<close> of a chain \<open>c\<close>, the
  fill loop returns the trimmed matrix with that entry replaced by the value of the same
  chain at column \<open>i - 1\<close>.
\<close>

theorem prepare_variable_trim_and_fill:
  assumes rect: "rectangular mat"
  shows "((\<exists>row\<in>set mat. has_present row) \<longrightarrow>
            trim_leading mat
              = map (drop (Max (first_present ` {row \<in> set mat. has_present row}))) mat)
       \<and> (\<forall>c i. single_missing (trim_leading mat) c i \<and> 0 < i \<longrightarrow>
            prepare_variable (shape0 mat) mat
              = Inr ((trim_leading mat)
                       [c := (trim_leading mat ! c)[i := trim_leading mat ! c ! (i - 1)]]))"
proof (intro conjI impI allI)
  assume "\<exists>row\<in>set mat. has_present row"
  then show "trim_leading mat
      = map (drop (Max (first_present ` {row \<in> set mat. has_present row}))) mat"
    using starting_col_max [OF rect] by (simp add: trim_leading_drop)
next
  fix c i
  let ?v = "trim_leading mat"
  assume a: "single_missing ?v c i \<and> 0 < i"
  have len: "length ?v = shape0 mat"
    by (simp add: trim_leading_drop shape0_def)
  have "fill_chains [0..<length ?v] ?v = Inr (?v[c := (?v ! c)[i := ?v ! c ! (i - 1)]])"
    using rectangular_trim [OF rect] a by (intro fill_single_missing) simp_all
  then show "prepare_variable (shape0 mat) mat
      = Inr (?v[c := (?v ! c)[i := ?v ! c ! (i - 1)]])"
    unfolding prepare_variable_def len .
qed


theorem prepare_variable_trim_and_fill_witness:
  "trim_leading [[NaN, Fin 1, NaN, Fin 3], [Fin 0, Fin 4, Fin 5, Fin 6]]
     = [[Fin 1, NaN, Fin 3], [Fin 4, Fin 5, Fin 6]]
   \<and> prepare_variable 2 [[NaN, Fin 1, NaN, Fin 3], [Fin 0, Fin 4, Fin 5, Fin 6]]
     = Inr [[Fin 1, Fin 1, Fin 3], [Fin 4, Fin 5, Fin 6]]"
proof -
  let ?a = "[NaN, Fin 1, NaN, Fin 3]"
  let ?b = "[Fin 0, Fin 4, Fin 5, Fin 6]"
  let ?mat = "[?a, ?b]"
  let ?v = "[[Fin 1, NaN, Fin 3], [Fin 4, Fin 5, Fin 6]]"
  have rect: "rectangular ?mat" by (simp add: rectangular_def shape1_def)
  have pa: "has_present ?a" and pb: "has_present ?b" by (simp_all add: has_present_def)
  have some: "\<exists>row\<in>set ?mat. has_present row" using pa by simp
  have rows: "{row \<in> set ?mat. has_present row} = {?a, ?b}" using pa pb by auto
  have mx: "Max (first_present ` {row \<in> set ?mat. has_present row}) = 1"
    unfolding rows by (simp add: first_present_def)
  note main = prepare_variable_trim_and_fill [OF rect]
  have trim: "trim_leading ?mat = ?v"
    using main pa unfolding mx by simp
  have one: "single_missing ?v 0 1"
    by (auto simp: single_missing_def less_Suc_eq numeral_2_eq_2 numeral_3_eq_3)
  have "prepare_variable (shape0 ?mat) ?mat = Inr (?v[0 := (?v ! 0)[1 := ?v ! 0 ! (1 - 1)]])"
    using main one unfolding trim by blast
  then show ?thesis using trim by (simp add: shape0_def numeral_2_eq_2)
qed

section \<open>Properties of the autocorrelation\<close>

lemma slice_from_pos:
  "0 < k \<Longrightarrow> k < int (length xs) \<Longrightarrow> slice_from xs k = drop (nat k) xs"
  by (simp add: slice_from_def slice_bound_def)

lemma slice_to_neg:
  "0 < k \<Longrightarrow> k < int (length xs) \<Longrightarrow> slice_to xs (- k) = take (length xs - nat k) xs"
  by (simp add: slice_to_def slice_bound_def nat_diff_distrib')

lemma slices_same_length:
  "lag \<noteq> 0 \<Longrightarrow> length (slice_from xs lag) = length (slice_to xs (- lag))"
  by (auto simp: slice_from_def slice_to_def slice_bound_def)

text \<open>
  Claim C2, as the code has it. At lag \<open>0\<close> the entry is exactly \<open>1\<close>. At a lag \<open>k\<close> with
  \<open>0 < k < len(values)\<close> it is \<^verbatim>\<open>np.corrcoef(values[k:], values[:-k])[0][1]\<close>: the
  correlation coefficient, as NumPy computes it, of the sequence shifted by \<open>k\<close> and of
  the sequence without its last \<open>k\<close> elements, which have the same length. For
  \<open>k < len(values) - 1\<close> this is the runtime's coefficient of two sequences of at least
  two elements; at \<open>k = len(values) - 1\<close> both sequences have one element, no
  correlation coefficient exists, and the entry is NaN.
\<close>

theorem autocorrelation_lags:
  assumes i: "i < length lags"
  shows "(lags ! i = 0 \<longrightarrow> autocorrelation np values lags ! i = Fin 1)
       \<and> (0 < lags ! i \<and> lags ! i < int (length values) \<longrightarrow>
            autocorrelation np values lags ! i
              = corrcoef01 np (drop (nat (lags ! i)) values)
                  (take (length values - nat (lags ! i)) values)
            \<and> length (drop (nat (lags ! i)) values)
              = length (take (length values - nat (lags ! i)) values))
       \<and> (0 < lags ! i \<and> lags ! i + 1 < int (length values) \<longrightarrow>
            autocorrelation np values lags ! i
              = np_corrcoef np (drop (nat (lags ! i)) values)
                  (take (length values - nat (lags ! i)) values))
       \<and> (0 < lags ! i \<and> lags ! i + 1 = int (length values) \<longrightarrow>
            autocorrelation np values lags ! i = NaN)"
proof -
  let ?k = "lags ! i"
  have at: "autocorrelation np values lags ! i
      = (if ?k = 0 then Fin 1
         else corrcoef01 np (slice_from values ?k) (slice_to values (- ?k)))"
    using i by (simp add: autocorrelation_def)
  have zero: "?k = 0 \<longrightarrow> autocorrelation np values lags ! i = Fin 1"
    using at by simp
  have pos: "autocorrelation np values lags ! i
      = corrcoef01 np (drop (nat ?k) values) (take (length values - nat ?k) values)"
    if "0 < ?k" "?k < int (length values)"
    using at that by (simp add: slice_from_pos slice_to_neg)
  have many: "autocorrelation np values lags ! i
      = np_corrcoef np (drop (nat ?k) values) (take (length values - nat ?k) values)"
    if "0 < ?k" "?k + 1 < int (length values)"
  proof -
    have "\<not> length (drop (nat ?k) values) \<le> 1" using that by simp
    then show ?thesis using pos that by (simp add: corrcoef01_def)
  qed
  have one: "autocorrelation np values lags ! i = NaN"
    if "0 < ?k" "?k + 1 = int (length values)"
  proof -
    have "length (drop (nat ?k) values) \<le> 1" using that by simp
    then show ?thesis using pos that by (simp add: corrcoef01_def)
  qed
  show ?thesis
    using zero pos many one by simp
qed

theorem autocorrelation_lags_witness:
  "\<forall>np. autocorrelation np [Fin 0, Fin 1, Fin 0, Fin 0] [0, 1, 3]
        = [Fin 1, np_corrcoef np [Fin 1, Fin 0, Fin 0] [Fin 0, Fin 1, Fin 0], NaN]"
proof
  fix np
  let ?vs = "[Fin 0, Fin 1, Fin 0, Fin 0]"
  let ?lags = "[0, 1, 3 :: int]"
  have i0: "0 < length ?lags" and i1: "1 < length ?lags" and i2: "2 < length ?lags"
    by simp_all
  have a0: "autocorrelation np ?vs ?lags ! 0 = Fin 1"
    using autocorrelation_lags [OF i0, of np ?vs] by simp
  have a1: "autocorrelation np ?vs ?lags ! 1
              = np_corrcoef np [Fin 1, Fin 0, Fin 0] [Fin 0, Fin 1, Fin 0]"
    using autocorrelation_lags [OF i1, of np ?vs] by (simp add: corrcoef01_def)
  have a2: "autocorrelation np ?vs ?lags ! 2 = NaN"
    using autocorrelation_lags [OF i2, of np ?vs] by (simp add: corrcoef01_def)
  have "length (autocorrelation np ?vs ?lags) = 3"
    by (simp add: autocorrelation_def)
  then obtain a b c where abc: "autocorrelation np ?vs ?lags = [a, b, c]"
    by (cases "autocorrelation np ?vs ?lags"; cases "tl (autocorrelation np ?vs ?lags)";
        cases "tl (tl (autocorrelation np ?vs ?lags))") auto
  with a0 a1 a2 show "autocorrelation np ?vs ?lags
        = [Fin 1, np_corrcoef np [Fin 1, Fin 0, Fin 0] [Fin 0, Fin 1, Fin 0], NaN]"
    by simp
qed

text \<open>
  At the lag \<open>k = len(values) - 1\<close> the two sequences are the last and the first element
  alone, and the entry is NaN, not a correlation coefficient.
\<close>

theorem autocorrelation_nan_counterexample:
  "(\<forall>np. autocorrelation np [Fin 1, Fin 2, Fin 3] [2] = [NaN])
   \<and> slice_from [Fin 1, Fin 2, Fin 3] 2 = [Fin 3]
   \<and> slice_to [Fin 1, Fin 2, Fin 3] (- 2) = [Fin 1]"
  by (simp add: autocorrelation_def corrcoef01_def slice_from_def slice_to_def slice_bound_def)

section \<open>Sequencing and loops that may raise\<close>

lemma and_then_Inl [simp]: "and_then (Inl e) f = Inl e"
  by (simp add: and_then_def)

lemma and_then_Inr [simp]: "and_then (Inr x) f = f x"
  by (simp add: and_then_def)



text \<open>The two selections on the example trace.\<close>

lemma example_gelman_rubin_selection:
  "single_trace_dist_values 1 None None (Empirical [Trace example_trace])
     = Inr [((''a0'', Some ''obs0''), [Fin 2])]"
  by (simp add: single_trace_dist_values_def list_index_def named_samples_def example_trace_def
      record_named_def float_of_tensor_def store_at_def sorted_reverse_def)



section \<open>Properties of the argument checks\<close>

text \<open>
  Claim C4 asks for \<^verbatim>\<open>ValueError\<close> on every input with fewer than two chains. The
  code reads \<^verbatim>\<open>trace_dists[0].length\<close> first, so an empty list of chains raises
  \<^verbatim>\<open>IndexError\<close>; and one chain in which no variable is selected reaches neither the
  unpacking of \<^verbatim>\<open>np.where\<close> nor the check of the diagnostic, and returns.
\<close>

theorem gelman_rubin_without_two_chains:
  "gelman_rubin np [] names n_most_frequent iters = Inl IndexError
   \<and> gelman_rubin np
       [Empirical [Trace \<lparr>named_variables = [], variables_controlled = [],
                          variables_dict_address = [], trace_log_prob = Fin 0\<rparr>]]
       None None iters
     = Inr (iters, [])"
  by (simp add: gelman_rubin_def list_index_def single_trace_dist_values_def named_samples_def
      sorted_reverse_def merge_dicts_def)

text \<open>
  Claim C7 asks for \<^verbatim>\<open>TypeError\<close> when a chain is not an \<^verbatim>\<open>Empirical\<close> of traces.
  \<^verbatim>\<open>gelman_rubin\<close> reads \<^verbatim>\<open>trace_dists[0].length\<close> before any check, so a first
  chain that is a plain list or a number raises \<^verbatim>\<open>AttributeError\<close>; \<^verbatim>\<open>log_prob\<close>
  checks the first element only, so a plain list of traces passes the check and raises
  \<^verbatim>\<open>AttributeError\<close> at \<^verbatim>\<open>.length\<close>.
\<close>

theorem gelman_rubin_first_chain_not_checked:
  "gelman_rubin np (PyList elems # trace_dists) names n_most_frequent iters = Inl AttributeError
   \<and> gelman_rubin np (PyNumber # trace_dists) names n_most_frequent iters = Inl AttributeError
   \<and> log_prob (ArgList (PyList (Trace t # elems) # trace_dists)) resolution = Inl AttributeError"
  by (simp add: gelman_rubin_def list_index_def log_prob_one_def)

text \<open>
  One chain with a selected variable does raise \<^verbatim>\<open>ValueError\<close>, from the unpacking of
  \<^verbatim>\<open>np.where\<close> on a vector.
\<close>

lemma gelman_rubin_one_chain_example:
  "gelman_rubin np [Empirical [Trace example_trace]] None None [1] = Inl ValueError"
  using example_gelman_rubin_selection
  by (simp add: gelman_rubin_def list_index_def merge_dicts_def dict_set_def prepare_array_def)

text \<open>The checks that do raise \<^verbatim>\<open>TypeError\<close>.\<close>

lemma type_checks:
  "log_prob ArgNotList resolution = Inl TypeError"
  "log_prob (ArgList (Empirical (NotTrace # elems) # trace_dists)) resolution = Inl TypeError"
  "\<not> is_Empirical trace_dist \<Longrightarrow> autocorrelations np trace_dist names lags n = Inl TypeError"
  "autocorrelations np (Empirical (NotTrace # elems)) names lags n = Inl TypeError"
  "\<not> is_Empirical trace_dist \<Longrightarrow>
     single_trace_dist_values len names n trace_dist = Inl TypeError"
  "single_trace_dist_values len names n (Empirical (NotTrace # elems)) = Inl TypeError"
  by (simp_all add: log_prob_one_def list_index_def autocorrelations_def
      single_trace_dist_values_def)

text \<open>
  Claim C8. When the argument has passed the type checks and the selection of variables
  returns an empty dictionary, \<^verbatim>\<open>autocorrelations\<close> raises \<^verbatim>\<open>RuntimeError\<close>; no
  value is loaded and no autocorrelation computed.
\<close>

theorem autocorrelations_no_variables:
  assumes "is_Empirical trace_dist"
    and "subscript trace_dist 0 = Inr first" and "is_Trace first"
    and "select_variables trace_dist names n_most_frequent = Inr []"
  shows "autocorrelations np trace_dist names lags n_most_frequent = Inl RuntimeError"
  using assms by (simp add: autocorrelations_def)

theorem autocorrelations_no_variables_witness:
  "\<forall>np. autocorrelations np
     (Empirical [Trace \<lparr>named_variables =
                          [(''obs0'', \<lparr>address = ''a0'', value = [Fin 1], control = False,
                                       observed = True\<rparr>)],
                        variables_controlled = [],
                        variables_dict_address = [], trace_log_prob = Fin 0\<rparr>])
     None [0, 1] None
   = Inl RuntimeError"
  by (rule allI, rule autocorrelations_no_variables [where first = "Trace _"])
     (simp_all add: list_index_def select_variables_def named_selection_def)

section \<open>Properties of the graph report\<close>

text \<open>
  Claim C10. The distribution of the unique trace identifiers \<open>0, \<dots>, K - 1\<close> is built
  with the identifiers themselves as weights, not with the counts collected in
  \<^verbatim>\<open>trace_weights\<close>; the distribution of the address identifiers is weighted by the
  counts of the addresses.
\<close>

theorem graph_trace_id_weights:
  "dist_values (snd (graph_id_dists address_stats trace_stats)) = map int [0..<length trace_stats]
   \<and> dist_weights (snd (graph_id_dists address_stats trace_stats))
       = map int [0..<length trace_stats]
   \<and> dist_weights (fst (graph_id_dists address_stats trace_stats)) = map snd address_stats
   \<and> dist_values (fst (graph_id_dists address_stats trace_stats))
       = map int [0..<length address_stats]
   \<and> dist_name (snd (graph_id_dists address_stats trace_stats)) = ''Unique trace ID''
   \<and> dist_name (fst (graph_id_dists address_stats trace_stats)) = ''Address ID''"
  by (simp add: graph_id_dists_def Let_def)

section \<open>Properties of the selection of variables\<close>


lemma dict_set_keys [simp]: "fst ` set (dict_set k v d) = insert k (fst ` set d)"
  by (force simp: dict_set_def split: if_splits)















end
